theory Spec2Isabelle
  imports Main "HOL-Library.Sublist"
begin

section \<open>The notebook execution queue (NotebookQueue.cpp)\<close>

text \<open>
  A shallow embedding of \<^verbatim>\<open>src/cpp/session/modules/rmarkdown/NotebookQueue.cpp\<close>:
  the class \<^verbatim>\<open>NotebookQueue\<close>, the process-wide pointer \<^verbatim>\<open>s_queue\<close> and the
  three entry points \<^verbatim>\<open>updateExecQueue\<close>, \<^verbatim>\<open>executeNotebookChunks\<close> and
  \<^verbatim>\<open>onConsolePrompt\<close>.

  Units are held through \<^verbatim>\<open>boost::shared_ptr\<close>: the unit in \<^verbatim>\<open>execUnit_\<close> is the
  very object that sits in its document queue, so popping a range through
  \<^verbatim>\<open>execUnit_\<close> is seen through the document queue as well. The model keeps the
  units in an explicit store, addressed by references, and the queues hold references.
\<close>

subsection \<open>Data\<close>

datatype json =
    JNull
  | JBool bool
  | JInt int
  | JStr string
  | JArr "json list"
  | JObj "(string \<times> json) list"

text \<open>\<^verbatim>\<open>core::Error\<close>. A function returning \<^verbatim>\<open>Error\<close> is modelled as returning
  \<open>Error option\<close>, with \<^verbatim>\<open>Success()\<close> the value \<open>None\<close>; \<^verbatim>\<open>if (error)\<close> is the
  test for \<open>Some\<close>.\<close>

datatype Error = Error string

abbreviation Success :: "Error option" where
  "Success \<equiv> None"

datatype ChunkExecState = ChunkExecStarted | ChunkExecFinished

datatype ExecScope = ExecScopeChunk

text \<open>Modelled from the spec: \<^verbatim>\<open>ExecRange\<close> is declared in NotebookQueueUnit.hpp,
  which is not among the sources; the spec gives it as a contiguous span (start offset,
  length). The source constructs the empty range as \<^verbatim>\<open>ExecRange range(0, 0)\<close>.\<close>

datatype ExecRange = ExecRange (range_start: int) (range_length: int)

text \<open>Modelled from the spec: \<^verbatim>\<open>QueueOperation\<close> is declared in NotebookDocQueue.hpp,
  which is not among the sources (only \<^verbatim>\<open>QueueDelete\<close> is named in NotebookQueue.cpp);
  the spec gives the operations insert-before (\<open>QueueAdd\<close>), update-in-place
  (\<open>QueueUpdate\<close>) and delete. \<open>QueueOther\<close> stands for any other value that the \<^verbatim>\<open>static_cast\<close> from the request's
  integer produces.\<close>

datatype QueueOperation = QueueAdd | QueueUpdate | QueueDelete | QueueOther int

type_synonym unit_ref = nat

text \<open>Modelled from the spec: \<^verbatim>\<open>NotebookQueueUnit\<close> (NotebookQueueUnit.hpp/.cpp are not
  among the sources): document id, chunk id, the chunk's source text, its raw option text
  and the ordered sequence of ranges still to execute.\<close>

record NotebookQueueUnit =
  unit_docId :: string
  unit_chunkId :: string
  unit_code :: string
  unit_options :: string
  unit_pending :: "ExecRange list"

text \<open>Modelled from the spec: \<^verbatim>\<open>NotebookDocQueue\<close> (NotebookDocQueue.hpp/.cpp are not
  among the sources): document id, rendering parameters and the ordered sequence of
  units (shared pointers, here references into the store).\<close>

record NotebookDocQueue =
  dq_docId :: string
  dq_pixelWidth :: int
  dq_charWidth :: int
  dq_queue :: "unit_ref list"

text \<open>Modelled from the spec: \<^verbatim>\<open>ChunkExecContext\<close> (NotebookExec.hpp/.cpp are not among
  the sources). The fields are the constructor arguments at the call site in
  \<^verbatim>\<open>executeNextUnit\<close>; \<open>ctx_connected\<close> is the handle on the console lifecycle events,
  taken by \<^verbatim>\<open>connect()\<close> and released by \<^verbatim>\<open>disconnect()\<close>.\<close>

record ChunkExecContext =
  ctx_docId :: string
  ctx_chunkId :: string
  ctx_nbCtxId :: string
  ctx_execScope :: ExecScope
  ctx_options :: json
  ctx_pixelWidth :: int
  ctx_charWidth :: int
  ctx_connected :: bool

text \<open>The events handed to \<^verbatim>\<open>module_context::enqueClientEvent\<close>:
  \<^verbatim>\<open>kChunkExecStateChanged\<close> with \<^verbatim>\<open>doc_id\<close>, \<^verbatim>\<open>chunk_id\<close>, \<^verbatim>\<open>exec_state\<close>, and
  \<^verbatim>\<open>kNotebookRangeExecuted\<close> with \<^verbatim>\<open>doc_id\<close>, \<^verbatim>\<open>chunk_id\<close>, \<^verbatim>\<open>exec_range\<close>.\<close>

datatype ClientEvent =
    ChunkExecStateChanged string string ChunkExecState
  | NotebookRangeExecuted string string ExecRange

text \<open>The RPC body that \<^verbatim>\<open>executeCurrentUnit\<close> serialises and enqueues on \<^verbatim>\<open>input_\<close>:
  \<^verbatim>\<open>method\<close>, \<^verbatim>\<open>params\<close> (the code of the range, the chunk id) and \<^verbatim>\<open>clientId\<close>.\<close>

datatype ConsoleInputRpc =
  ConsoleInputRpc (rpc_method: string) (rpc_code: string) (rpc_chunkId: string)
    (rpc_clientId: string)

text \<open>The members of \<^verbatim>\<open>NotebookQueue\<close>; a member such as \<^verbatim>\<open>queue_\<close> is the
  field \<open>m_queue\<close>. The thread \<^verbatim>\<open>console_\<close> that drains \<^verbatim>\<open>input_\<close> is not
  modelled: \<open>m_input\<close> is the sequence of everything enqueued.\<close>

record NotebookQueue =
  m_clientId :: string
  m_queue :: "NotebookDocQueue list"
  m_execUnit :: "unit_ref option"
  m_execContext :: "ChunkExecContext option"
  m_input :: "ConsoleInputRpc list"

text \<open>What lives outside the queue object: the store of units behind the shared
  pointers (\<open>nextRef\<close> is the next unused reference) and the client event queue.\<close>

record world =
  heap :: "unit_ref \<Rightarrow> NotebookQueueUnit"
  nextRef :: unit_ref
  clientEvents :: "ClientEvent list"

record session =
  s_queue :: "NotebookQueue option"
  world :: world

record JsonRpcRequest =
  req_params :: "json list"
  req_clientId :: string

text \<open>What a document object decodes to: the document queue with its units by value,
  before they are placed in the store.\<close>

record DocQueueData =
  dd_docId :: string
  dd_pixelWidth :: int
  dd_charWidth :: int
  dd_units :: "NotebookQueueUnit list"

text \<open>
  The surroundings of the queue, read at each step. None of these is defined in the
  sources, so each is a parameter:
  \<^item> \<open>nextcontextNULL\<close>: the value of \<^verbatim>\<open>r::getGlobalContext()->nextcontext == NULL\<close>,
    that is, R is not executing code;
  \<^item> \<open>evaluationFinished\<close>: the console has signalled evaluation-finished for the last
    range submitted for the executing chunk (a console lifecycle event);
  \<^item> \<open>parseOptions\<close>: \<^verbatim>\<open>NotebookQueueUnit::parseOptions\<close>, the chunk option parser;
  \<^item> \<open>notebookCtxId\<close>: \<^verbatim>\<open>notebookCtxId()\<close>;
  \<^item> \<open>updateFrom\<close>: how an update-in-place request changes the stored unit;
  \<^item> \<open>readParams1\<close>, \<open>readParams3\<close>: \<^verbatim>\<open>json::readParams\<close> with one and with three
    outputs;
  \<^item> \<open>unitFromJson\<close>, \<open>docQueueFromJson\<close>: \<^verbatim>\<open>NotebookQueueUnit::fromJson\<close> and
    \<^verbatim>\<open>NotebookDocQueue::fromJson\<close>;
  \<^item> \<open>queueOperation\<close>: the \<^verbatim>\<open>static_cast<QueueOperation>\<close> of the request's integer.
\<close>

record env =
  nextcontextNULL :: bool
  evaluationFinished :: bool
  parseOptions :: "NotebookQueueUnit \<Rightarrow> Error + json"
  notebookCtxId :: string
  updateFrom :: "NotebookQueueUnit \<Rightarrow> NotebookQueueUnit \<Rightarrow> NotebookQueueUnit"
  readParams1 :: "json list \<Rightarrow> Error + json"
  readParams3 :: "json list \<Rightarrow> Error + (json \<times> int \<times> string)"
  unitFromJson :: "json \<Rightarrow> Error + NotebookQueueUnit"
  docQueueFromJson :: "json \<Rightarrow> Error + DocQueueData"
  queueOperation :: "int \<Rightarrow> QueueOperation"

subsection \<open>The unit, the document queue and the execution context\<close>

text \<open>Modelled from the spec: \<^verbatim>\<open>NotebookQueueUnit::complete()\<close> is not among the
  sources. The spec: a unit is complete when its range sequence is exhausted and the
  console signals that the corresponding output has been fully produced.\<close>

definition NotebookQueueUnit_complete :: "env \<Rightarrow> NotebookQueueUnit \<Rightarrow> bool" where
  "NotebookQueueUnit_complete e u \<longleftrightarrow> unit_pending u = [] \<and> evaluationFinished e"

text \<open>Modelled from the spec: \<^verbatim>\<open>NotebookQueueUnit::popExecRange\<close> is not among the
  sources. The spec: pop the next range of the unit, or leave the caller's zero-length
  range when the unit has no remaining source; the command is the source text of that
  range. The result is the code, the range and the unit after the pop.\<close>

definition popExecRange ::
  "ExecRange \<Rightarrow> NotebookQueueUnit \<Rightarrow> string \<times> ExecRange \<times> NotebookQueueUnit" where
  "popExecRange rng u =
     (case unit_pending u of
        [] \<Rightarrow> ('''', rng, u)
      | r # rs \<Rightarrow>
          (take (nat (range_length r)) (drop (nat (range_start r)) (unit_code u)), r,
           u\<lparr>unit_pending := rs\<rparr>))"

text \<open>Identity of a unit, from the spec: (documentId, chunkId).\<close>

definition unit_ident :: "NotebookQueueUnit \<Rightarrow> string \<times> string" where
  "unit_ident u = (unit_docId u, unit_chunkId u)"

text \<open>Modelled from the spec: \<^verbatim>\<open>NotebookDocQueue::complete()\<close> and
  \<^verbatim>\<open>NotebookDocQueue::firstUnit()\<close> are not among the sources. The spec: a document
  queue is complete when its unit sequence is empty.\<close>

definition NotebookDocQueue_complete :: "NotebookDocQueue \<Rightarrow> bool" where
  "NotebookDocQueue_complete dq \<longleftrightarrow> dq_queue dq = []"

definition firstUnit :: "NotebookDocQueue \<Rightarrow> unit_ref option" where
  "firstUnit dq = (case dq_queue dq of [] \<Rightarrow> None | r # _ \<Rightarrow> Some r)"

fun insertBefore ::
  "(unit_ref \<Rightarrow> NotebookQueueUnit) \<Rightarrow> string \<Rightarrow> unit_ref \<Rightarrow> unit_ref list \<Rightarrow> unit_ref list" where
  "insertBefore h beforeId r [] = [r]"
| "insertBefore h beforeId r (x # xs) =
     (if unit_chunkId (h x) = beforeId then r # x # xs else x # insertBefore h beforeId r xs)"

text \<open>Modelled from the spec: \<^verbatim>\<open>NotebookDocQueue::update\<close> is not among the sources.
  The spec: insert, remove and update-in-place by unit identity, with an anchor chunk id
  for the insertion. The unit of the request is passed by value; an insertion places it
  in the store under a fresh reference (the request's shared pointer, which nothing else
  holds).\<close>

definition NotebookDocQueue_update ::
  "env \<Rightarrow> NotebookQueueUnit \<Rightarrow> QueueOperation \<Rightarrow> string \<Rightarrow> NotebookDocQueue \<Rightarrow> world
     \<Rightarrow> NotebookDocQueue \<times> world" where
  "NotebookDocQueue_update e pUnit qop beforeId dq w =
     (case qop of
        QueueAdd \<Rightarrow>
          (let r = nextRef w; h = (heap w)(r := pUnit)
           in (dq\<lparr>dq_queue := insertBefore h beforeId r (dq_queue dq)\<rparr>,
               w\<lparr>heap := h, nextRef := Suc r\<rparr>))
      | QueueUpdate \<Rightarrow>
          (case find (\<lambda>x. unit_ident (heap w x) = unit_ident pUnit) (dq_queue dq) of
             None \<Rightarrow> (dq, w)
           | Some r \<Rightarrow> (dq, w\<lparr>heap := (heap w)(r := updateFrom e (heap w r) pUnit)\<rparr>))
      | QueueDelete \<Rightarrow>
          (dq\<lparr>dq_queue :=
                filter (\<lambda>x. unit_ident (heap w x) \<noteq> unit_ident pUnit) (dq_queue dq)\<rparr>, w)
      | QueueOther n \<Rightarrow> (dq, w))"

text \<open>Modelled from the spec: \<^verbatim>\<open>ChunkExecContext::connect\<close> and \<^verbatim>\<open>disconnect\<close> are
  not among the sources. The spec: the context is connected to console lifecycle events
  and owns a handle that is released when the unit finishes.\<close>

definition connect :: "ChunkExecContext \<Rightarrow> ChunkExecContext" where
  "connect c = c\<lparr>ctx_connected := True\<rparr>"

definition disconnect :: "ChunkExecContext \<Rightarrow> ChunkExecContext" where
  "disconnect c = c\<lparr>ctx_connected := False\<rparr>"

subsection \<open>NotebookQueue\<close>

definition NotebookQueue_new :: "string \<Rightarrow> NotebookQueue" where
  "NotebookQueue_new clientId =
     \<lparr>m_clientId = clientId, m_queue = [], m_execUnit = None, m_execContext = None,
      m_input = []\<rparr>"

definition NotebookQueue_complete :: "NotebookQueue \<Rightarrow> bool" where
  "NotebookQueue_complete this \<longleftrightarrow> m_queue this = []"

text \<open>\<^verbatim>\<open>enqueueExecStateChanged\<close>: the event names the unit in \<^verbatim>\<open>execUnit_\<close>.\<close>

definition enqueueExecStateChanged :: "ChunkExecState \<Rightarrow> NotebookQueueUnit \<Rightarrow> world \<Rightarrow> world" where
  "enqueueExecStateChanged state u w =
     w\<lparr>clientEvents :=
         clientEvents w @ [ChunkExecStateChanged (unit_docId u) (unit_chunkId u) state]\<rparr>"

text \<open>\<^verbatim>\<open>executeCurrentUnit\<close>. It is only called with \<^verbatim>\<open>execUnit_\<close> set (inside
  \<^verbatim>\<open>if (execUnit_)\<close> and right after the assignment in \<^verbatim>\<open>executeNextUnit\<close>); the
  branch for an empty slot does nothing.\<close>

definition executeCurrentUnit :: "NotebookQueue \<Rightarrow> world \<Rightarrow> Error option \<times> NotebookQueue \<times> world" where
  "executeCurrentUnit this w =
     (case m_execUnit this of
        None \<Rightarrow> (Success, this, w)
      | Some r \<Rightarrow>
          (case popExecRange (ExecRange 0 0) (heap w r) of
             (code, rng, u) \<Rightarrow>
               (Success,
                this\<lparr>m_input := m_input this @
                   [ConsoleInputRpc ''console_input'' code (unit_chunkId u) (m_clientId this)]\<rparr>,
                w\<lparr>heap := (heap w)(r := u),
                  clientEvents := clientEvents w @
                    [NotebookRangeExecuted (unit_docId u) (unit_chunkId u) rng]\<rparr>)))"

text \<open>\<^verbatim>\<open>executeNextUnit\<close>. The result of the inner \<^verbatim>\<open>executeCurrentUnit()\<close> is
  dropped, as in the source.\<close>

definition executeNextUnit :: "env \<Rightarrow> NotebookQueue \<Rightarrow> world \<Rightarrow> Error option \<times> NotebookQueue \<times> world" where
  "executeNextUnit e this w =
     (case m_queue this of
        [] \<Rightarrow> (Success, this, w)
      | docQueue # _ \<Rightarrow>
          if NotebookDocQueue_complete docQueue then (Success, this, w)
          else
            (case firstUnit docQueue of
               None \<Rightarrow> (Success, this, w)
             | Some unit \<Rightarrow>
                 (case parseOptions e (heap w unit) of
                    Inl error \<Rightarrow> (Some error, this, w)
                  | Inr options \<Rightarrow>
                      (let ctx = connect
                             \<lparr>ctx_docId = unit_docId (heap w unit),
                              ctx_chunkId = unit_chunkId (heap w unit),
                              ctx_nbCtxId = notebookCtxId e,
                              ctx_execScope = ExecScopeChunk,
                              ctx_options = options,
                              ctx_pixelWidth = dq_pixelWidth docQueue,
                              ctx_charWidth = dq_charWidth docQueue,
                              ctx_connected = False\<rparr>;
                           this1 = this\<lparr>m_execContext := Some ctx, m_execUnit := Some unit\<rparr>;
                           w1 = enqueueExecStateChanged ChunkExecStarted (heap w unit) w
                       in (case executeCurrentUnit this1 w1 of
                             (_, this2, w2) \<Rightarrow> (Success, this2, w2))))))"

text \<open>The branch of \<^verbatim>\<open>process\<close> that retires the finished unit: delete it from the
  first document queue, pop that queue when it is complete, notify the client,
  disconnect the context and clear \<^verbatim>\<open>execUnit_\<close>.\<close>

definition retireUnit :: "env \<Rightarrow> unit_ref \<Rightarrow> NotebookQueue \<Rightarrow> world \<Rightarrow> NotebookQueue \<times> world" where
  "retireUnit e r this w =
     (case (case m_queue this of
              [] \<Rightarrow> ([], w)
            | docQueue # rest \<Rightarrow>
                (case NotebookDocQueue_update e (heap w r) QueueDelete '''' docQueue w of
                   (docQueue', w') \<Rightarrow>
                     (if NotebookDocQueue_complete docQueue' then rest else docQueue' # rest,
                      w'))) of
        (queue', w') \<Rightarrow>
          (this\<lparr>m_queue := queue',
                m_execContext := map_option disconnect (m_execContext this),
                m_execUnit := None\<rparr>,
           enqueueExecStateChanged ChunkExecFinished (heap w' r) w'))"

definition process :: "env \<Rightarrow> NotebookQueue \<Rightarrow> world \<Rightarrow> Error option \<times> NotebookQueue \<times> world" where
  "process e this w =
     (if m_queue this = [] then (Success, this, w)
      else if \<not> nextcontextNULL e then (Success, this, w)
      else
        (case m_execUnit this of
           Some r \<Rightarrow>
             if NotebookQueueUnit_complete e (heap w r) then
               (case retireUnit e r this w of (this', w') \<Rightarrow> executeNextUnit e this' w')
             else executeCurrentUnit this w
         | None \<Rightarrow> executeNextUnit e this w))"

text \<open>\<^verbatim>\<open>update\<close>: the loop over \<^verbatim>\<open>queue_\<close> that stops at the first document queue
  with the unit's document id.\<close>

fun update_loop ::
  "env \<Rightarrow> NotebookQueueUnit \<Rightarrow> QueueOperation \<Rightarrow> string \<Rightarrow> NotebookDocQueue list \<Rightarrow> world
     \<Rightarrow> NotebookDocQueue list \<times> world" where
  "update_loop e pUnit qop beforeId [] w = ([], w)"
| "update_loop e pUnit qop beforeId (queue # rest) w =
     (if dq_docId queue = unit_docId pUnit then
        (case NotebookDocQueue_update e pUnit qop beforeId queue w of
           (queue', w') \<Rightarrow> (queue' # rest, w'))
      else
        (case update_loop e pUnit qop beforeId rest w of
           (rest', w') \<Rightarrow> (queue # rest', w')))"

definition NotebookQueue_update ::
  "env \<Rightarrow> NotebookQueueUnit \<Rightarrow> QueueOperation \<Rightarrow> string \<Rightarrow> NotebookQueue \<Rightarrow> world
     \<Rightarrow> Error option \<times> NotebookQueue \<times> world" where
  "NotebookQueue_update e pUnit qop beforeId this w =
     (case update_loop e pUnit qop beforeId (m_queue this) w of
        (queue', w') \<Rightarrow> (Success, this\<lparr>m_queue := queue'\<rparr>, w'))"

definition NotebookQueue_add :: "NotebookDocQueue \<Rightarrow> NotebookQueue \<Rightarrow> NotebookQueue" where
  "NotebookQueue_add pQueue this = this\<lparr>m_queue := m_queue this @ [pQueue]\<rparr>"

subsection \<open>The entry points\<close>

definition updateExecQueue :: "env \<Rightarrow> JsonRpcRequest \<Rightarrow> session \<Rightarrow> Error option \<times> session" where
  "updateExecQueue e request g =
     (case readParams3 e (req_params request) of
        Inl error \<Rightarrow> (Some error, g)
      | Inr (unitJson, qop, beforeId) \<Rightarrow>
          (case unitFromJson e unitJson of
             Inl error \<Rightarrow> (Some error, g)
           | Inr pUnit \<Rightarrow>
               (case s_queue g of
                  None \<Rightarrow> (Success, g)
                | Some q \<Rightarrow>
                    (case NotebookQueue_update e pUnit (queueOperation e qop) beforeId q (world g) of
                       (err, q', w') \<Rightarrow> (err, \<lparr>s_queue = Some q', world = w'\<rparr>)))))"

text \<open>Placing the units of a decoded document in the store, in order, each under a
  fresh reference (the \<^verbatim>\<open>make_shared\<close> of each unit inside
  \<^verbatim>\<open>NotebookDocQueue::fromJson\<close>).\<close>

fun allocUnits :: "NotebookQueueUnit list \<Rightarrow> world \<Rightarrow> unit_ref list \<times> world" where
  "allocUnits [] w = ([], w)"
| "allocUnits (u # us) w =
     (case allocUnits us (w\<lparr>heap := (heap w)(nextRef w := u), nextRef := Suc (nextRef w)\<rparr>) of
        (rs, w') \<Rightarrow> (nextRef w # rs, w'))"

definition NotebookDocQueue_fromJson ::
  "env \<Rightarrow> json \<Rightarrow> world \<Rightarrow> Error + (NotebookDocQueue \<times> world)" where
  "NotebookDocQueue_fromJson e docObj w =
     (case docQueueFromJson e docObj of
        Inl error \<Rightarrow> Inl error
      | Inr d \<Rightarrow>
          (case allocUnits (dd_units d) w of
             (rs, w') \<Rightarrow>
               Inr (\<lparr>dq_docId = dd_docId d, dq_pixelWidth = dd_pixelWidth d,
                     dq_charWidth = dd_charWidth d, dq_queue = rs\<rparr>, w')))"

text \<open>\<^verbatim>\<open>executeNotebookChunks\<close>. The error of \<^verbatim>\<open>json::readParams\<close> is overwritten
  without being tested, so on a failed read the document object is the empty object it
  was initialised to. The result of \<^verbatim>\<open>s_queue->process()\<close> is dropped.\<close>

definition readDocObj :: "env \<Rightarrow> JsonRpcRequest \<Rightarrow> json" where
  "readDocObj e request =
     (case readParams1 e (req_params request) of
        Inl _ \<Rightarrow> JObj []
      | Inr d \<Rightarrow> d)"

definition executeNotebookChunks :: "env \<Rightarrow> JsonRpcRequest \<Rightarrow> session \<Rightarrow> Error option \<times> session" where
  "executeNotebookChunks e request g =
     (let docObj = readDocObj e request
      in case NotebookDocQueue_fromJson e docObj (world g) of
           Inl error \<Rightarrow> (Some error, g)
         | Inr (pQueue, w1) \<Rightarrow>
             (let q = (case s_queue g of
                         None \<Rightarrow> NotebookQueue_new (req_clientId request)
                       | Some q \<Rightarrow> q)
              in case process e (NotebookQueue_add pQueue q) w1 of
                   (_, q', w') \<Rightarrow> (Success, \<lparr>s_queue = Some q', world = w'\<rparr>)))"

text \<open>\<^verbatim>\<open>onConsolePrompt\<close>: process the queue if there is one, then drop it once it is
  complete.\<close>

definition onConsolePrompt :: "env \<Rightarrow> session \<Rightarrow> session" where
  "onConsolePrompt e g =
     (let g1 = (case s_queue g of
                  None \<Rightarrow> g
                | Some q \<Rightarrow>
                    (case process e q (world g) of
                       (_, q', w') \<Rightarrow> \<lparr>s_queue = Some q', world = w'\<rparr>))
      in case s_queue g1 of
           None \<Rightarrow> g1
         | Some q \<Rightarrow> if NotebookQueue_complete q then g1\<lparr>s_queue := None\<rparr> else g1)"

subsection \<open>Runs\<close>

text \<open>Repeated calls of \<^verbatim>\<open>process()\<close>, one per element of the list.\<close>

fun process_all ::
  "env list \<Rightarrow> NotebookQueue \<Rightarrow> world \<Rightarrow> Error option list \<times> NotebookQueue \<times> world" where
  "process_all [] this w = ([], this, w)"
| "process_all (e # es) this w =
     (case process e this w of
        (err, this', w') \<Rightarrow>
          (case process_all es this' w' of
             (errs, this'', w'') \<Rightarrow> (err # errs, this'', w'')))"

text \<open>The requests and signals that reach the module, and a run of them from the
  state in which no queue exists. Each step reads its own surroundings.\<close>

datatype action =
    ExecuteNotebookChunks JsonRpcRequest
  | UpdateExecQueue JsonRpcRequest
  | ConsolePrompt

fun step :: "session \<Rightarrow> env \<times> action \<Rightarrow> session" where
  "step g (e, ExecuteNotebookChunks request) = snd (executeNotebookChunks e request g)"
| "step g (e, UpdateExecQueue request) = snd (updateExecQueue e request g)"
| "step g (e, ConsolePrompt) = onConsolePrompt e g"

definition run :: "(env \<times> action) list \<Rightarrow> session \<Rightarrow> session" where
  "run steps g = foldl step g steps"

definition initialSession :: "(unit_ref \<Rightarrow> NotebookQueueUnit) \<Rightarrow> unit_ref \<Rightarrow> session" where
  "initialSession h n = \<lparr>s_queue = None, world = \<lparr>heap = h, nextRef = n, clientEvents = []\<rparr>\<rparr>"

text \<open>The events appended to the client event queue between two worlds.\<close>

definition emitted :: "world \<Rightarrow> world \<Rightarrow> ClientEvent list" where
  "emitted w w' = drop (length (clientEvents w)) (clientEvents w')"

subsection \<open>Reading the event log\<close>

text \<open>The chunks that the log reports as started, in the order of the log.\<close>

fun started :: "ClientEvent list \<Rightarrow> (string \<times> string) list" where
  "started [] = []"
| "started (ChunkExecStateChanged d c ChunkExecStarted # evs) = (d, c) # started evs"
| "started (ChunkExecStateChanged d c ChunkExecFinished # evs) = started evs"
| "started (NotebookRangeExecuted d c r # evs) = started evs"

text \<open>Reading the log from a point where a chunk is executing (\<open>True\<close>) or none is
  (\<open>False\<close>): \<open>None\<close> when the log starts a chunk while another one is executing, or
  finishes one while none is; otherwise whether a chunk is executing at the end.\<close>

fun executing_after :: "ClientEvent list \<Rightarrow> bool \<Rightarrow> bool option" where
  "executing_after [] b = Some b"
| "executing_after (ChunkExecStateChanged d c ChunkExecStarted # evs) b =
     (if b then None else executing_after evs True)"
| "executing_after (ChunkExecStateChanged d c ChunkExecFinished # evs) b =
     (if b then executing_after evs False else None)"
| "executing_after (NotebookRangeExecuted d c r # evs) b = executing_after evs b"

definition slotOccupied :: "session \<Rightarrow> bool" where
  "slotOccupied g \<longleftrightarrow> (case s_queue g of None \<Rightarrow> False | Some q \<Rightarrow> m_execUnit q \<noteq> None)"



subsection \<open>Sample inputs\<close>

text \<open>A sample of the surroundings, for evaluating the model on concrete requests: an
  option parser that rejects the option text \<open>bad\<close>, and decoders for a small request
  format (a document is its id and the list of its chunk ids; each chunk has the
  source \<open>xy\<close> and two ranges, one for each character).\<close>

definition sampleParseOptions :: "NotebookQueueUnit \<Rightarrow> Error + json" where
  "sampleParseOptions u =
     (if unit_options u = ''bad'' then Inl (Error ''options'') else Inr (JObj []))"

definition sampleUnit :: "string \<Rightarrow> string \<Rightarrow> NotebookQueueUnit" where
  "sampleUnit d c =
     \<lparr>unit_docId = d, unit_chunkId = c, unit_code = ''xy'', unit_options = '''',
      unit_pending = [ExecRange 0 1, ExecRange 1 1]\<rparr>"

fun sampleChunkIds :: "json list \<Rightarrow> string list" where
  "sampleChunkIds [] = []"
| "sampleChunkIds (JStr c # js) = c # sampleChunkIds js"
| "sampleChunkIds (j # js) = sampleChunkIds js"

fun sampleDocQueueFromJson :: "json \<Rightarrow> Error + DocQueueData" where
  "sampleDocQueueFromJson (JObj [(k1, JStr d), (k2, JArr cs)]) =
     Inr \<lparr>dd_docId = d, dd_pixelWidth = 640, dd_charWidth = 80,
          dd_units = map (sampleUnit d) (sampleChunkIds cs)\<rparr>"
| "sampleDocQueueFromJson j = Inl (Error ''document'')"

fun sampleUnitFromJson :: "json \<Rightarrow> Error + NotebookQueueUnit" where
  "sampleUnitFromJson (JObj [(k1, JStr d), (k2, JStr c)]) = Inr (sampleUnit d c)"
| "sampleUnitFromJson j = Inl (Error ''unit'')"

fun sampleReadParams1 :: "json list \<Rightarrow> Error + json" where
  "sampleReadParams1 [JObj kvs] = Inr (JObj kvs)"
| "sampleReadParams1 ps = Inl (Error ''params'')"

fun sampleReadParams3 :: "json list \<Rightarrow> Error + (json \<times> int \<times> string)" where
  "sampleReadParams3 [JObj kvs, JInt n, JStr b] = Inr (JObj kvs, n, b)"
| "sampleReadParams3 ps = Inl (Error ''params'')"

definition sampleQueueOperation :: "int \<Rightarrow> QueueOperation" where
  "sampleQueueOperation n =
     (if n = 0 then QueueAdd else if n = 1 then QueueUpdate
      else if n = 2 then QueueDelete else QueueOther n)"

text \<open>\<open>sampleEnv idle fin\<close>: R is idle when \<open>idle\<close>, and the console has signalled
  evaluation-finished when \<open>fin\<close>.\<close>

definition sampleEnv :: "bool \<Rightarrow> bool \<Rightarrow> env" where
  "sampleEnv idle fin =
     \<lparr>nextcontextNULL = idle, evaluationFinished = fin, parseOptions = sampleParseOptions,
      notebookCtxId = ''ctx'', updateFrom = (\<lambda>old new. new),
      readParams1 = sampleReadParams1, readParams3 = sampleReadParams3,
      unitFromJson = sampleUnitFromJson, docQueueFromJson = sampleDocQueueFromJson,
      queueOperation = sampleQueueOperation\<rparr>"

definition docRequest :: "string \<Rightarrow> string list \<Rightarrow> JsonRpcRequest" where
  "docRequest d cs =
     \<lparr>req_params = [JObj [(''doc_id'', JStr d), (''chunks'', JArr (map JStr cs))]],
      req_clientId = ''client''\<rparr>"

definition updateRequest :: "string \<Rightarrow> string \<Rightarrow> int \<Rightarrow> string \<Rightarrow> JsonRpcRequest" where
  "updateRequest d c n beforeId =
     \<lparr>req_params = [JObj [(''doc_id'', JStr d), (''chunk_id'', JStr c)], JInt n, JStr beforeId],
      req_clientId = ''client''\<rparr>"

text \<open>A store with the chunks \<open>a1\<close> and \<open>a2\<close> of document \<open>A\<close> at references 0
  and 1, and beyond them a chunk \<open>b1\<close> of document \<open>B\<close> whose options do not parse.\<close>

definition sampleWorld :: world where
  "sampleWorld =
     \<lparr>heap = (\<lambda>r. if r = 0 then sampleUnit ''A'' ''a1'' else if r = 1 then sampleUnit ''A'' ''a2''
               else (sampleUnit ''B'' ''b1'')\<lparr>unit_options := ''bad''\<rparr>),
      nextRef = 3, clientEvents = []\<rparr>"

definition sampleDocQueue :: "string \<Rightarrow> unit_ref list \<Rightarrow> NotebookDocQueue" where
  "sampleDocQueue d rs = \<lparr>dq_docId = d, dq_pixelWidth = 640, dq_charWidth = 80, dq_queue = rs\<rparr>"

definition sampleQueue :: "NotebookDocQueue list \<Rightarrow> NotebookQueue" where
  "sampleQueue dqs = (NotebookQueue_new ''client'')\<lparr>m_queue := dqs\<rparr>"

definition noUnits :: "unit_ref \<Rightarrow> NotebookQueueUnit" where
  "noUnits r = sampleUnit [] []"

text \<open>The queue and the world after two calls of \<^verbatim>\<open>process()\<close> on a queue that holds
  document \<open>A\<close> with the single chunk \<open>a2\<close>: the chunk has started and both its ranges
  have been submitted.\<close>

definition startedQueue :: NotebookQueue where
  "startedQueue =
     fst (snd (process_all [sampleEnv True False, sampleEnv True False]
       (sampleQueue [sampleDocQueue ''A'' [1]]) sampleWorld))"

definition startedWorld :: world where
  "startedWorld =
     snd (snd (process_all [sampleEnv True False, sampleEnv True False]
       (sampleQueue [sampleDocQueue ''A'' [1]]) sampleWorld))"

text \<open>A queue whose first document queue is complete and whose second is not.\<close>

definition stalledQueue :: NotebookQueue where
  "stalledQueue = sampleQueue [sampleDocQueue ''E'' [], sampleDocQueue ''A'' [1]]"

text \<open>Two runs from the state without a queue. In \<open>stalledRun\<close> a document without
  chunks is added before a document with one chunk. In \<open>deletionRun\<close> the only chunk of a
  document starts, a request deletes it, and the console prompts twice, the second time
  after it has signalled evaluation-finished.\<close>

definition stalledRun :: "(env \<times> action) list" where
  "stalledRun =
     [(sampleEnv True False, ExecuteNotebookChunks (docRequest ''E'' [])),
      (sampleEnv True False, ExecuteNotebookChunks (docRequest ''B'' [''b1''])),
      (sampleEnv True False, ConsolePrompt)]"

definition deletionRun :: "(env \<times> action) list" where
  "deletionRun =
     [(sampleEnv True False, ExecuteNotebookChunks (docRequest ''A'' [''a1''])),
      (sampleEnv True False, UpdateExecQueue (updateRequest ''A'' ''a1'' 2 [])),
      (sampleEnv True False, ConsolePrompt),
      (sampleEnv True True, ConsolePrompt)]"

subsection \<open>Invariants\<close>

text \<open>The event log and the slot \<^verbatim>\<open>execUnit_\<close> agree: the log, read from the start,
  never has two chunks executing at once, a chunk is executing at its end exactly when
  the slot holds a unit, and the slot holds a unit only while the queue has documents.\<close>

definition slotAgrees :: "NotebookQueue \<Rightarrow> world \<Rightarrow> bool" where
  "slotAgrees q w \<longleftrightarrow>
     executing_after (clientEvents w) False = Some (m_execUnit q \<noteq> None) \<and>
     (m_execUnit q \<noteq> None \<longrightarrow> m_queue q \<noteq> [])"

definition sessionAgrees :: "session \<Rightarrow> bool" where
  "sessionAgrees g \<longleftrightarrow>
     (case s_queue g of
        None \<Rightarrow> executing_after (clientEvents (world g)) False = Some False
      | Some q \<Rightarrow> slotAgrees q (world g))"












text \<open>A run in which two documents are added and all their chunks start.\<close>

definition orderRun :: "(env \<times> action) list" where
  "orderRun =
     [(sampleEnv True False, ExecuteNotebookChunks (docRequest ''A'' [''a1'', ''a2''])),
      (sampleEnv True False, ExecuteNotebookChunks (docRequest ''B'' [''b1''])),
      (sampleEnv True True, ConsolePrompt),
      (sampleEnv True False, ConsolePrompt),
      (sampleEnv True True, ConsolePrompt)]"

section \<open>Properties\<close>

lemmas sample_defs =
  sampleEnv_def sampleParseOptions_def sampleUnit_def sampleQueueOperation_def docRequest_def
  updateRequest_def sampleWorld_def sampleDocQueue_def sampleQueue_def
  noUnits_def initialSession_def NotebookQueue_new_def

lemmas queue_defs =
  process_def retireUnit_def executeNextUnit_def executeCurrentUnit_def
  enqueueExecStateChanged_def popExecRange_def NotebookQueueUnit_complete_def
  NotebookDocQueue_complete_def firstUnit_def NotebookDocQueue_update_def unit_ident_def
  connect_def disconnect_def NotebookQueue_update_def NotebookQueue_add_def
  NotebookQueue_complete_def

lemmas entry_defs =
  updateExecQueue_def executeNotebookChunks_def readDocObj_def NotebookDocQueue_fromJson_def
  onConsolePrompt_def run_def

subsection \<open>What each function appends to the event queue\<close>

lemma executeCurrentUnit_events:
  "executeCurrentUnit this w = (err, this', w') \<Longrightarrow>
   \<exists>new. clientEvents w' = clientEvents w @ new \<and>
     (\<forall>d c s. ChunkExecStateChanged d c s \<notin> set new)"
  by (auto simp: executeCurrentUnit_def split: option.splits prod.splits)

lemma executeNextUnit_events:
  "executeNextUnit e this w = (err, this', w') \<Longrightarrow>
   \<exists>new. clientEvents w' = clientEvents w @ new \<and>
     (\<forall>d c. ChunkExecStateChanged d c ChunkExecFinished \<notin> set new)"
  by (auto simp: executeNextUnit_def executeCurrentUnit_def enqueueExecStateChanged_def Let_def
      split: list.splits if_splits option.splits sum.splits prod.splits)

lemma NotebookDocQueue_update_events:
  "NotebookDocQueue_update e pUnit qop beforeId dq w = (dq', w') \<Longrightarrow>
   clientEvents w' = clientEvents w"
  by (auto simp: NotebookDocQueue_update_def Let_def split: QueueOperation.splits option.splits)

lemma NotebookDocQueue_delete_world:
  "NotebookDocQueue_update e pUnit QueueDelete beforeId dq w = (dq', w') \<Longrightarrow> w' = w"
  by (auto simp: NotebookDocQueue_update_def)

lemma retireUnit_events:
  "retireUnit e r this w = (this', w') \<Longrightarrow>
   clientEvents w' = clientEvents w @
     [ChunkExecStateChanged (unit_docId (heap w r)) (unit_chunkId (heap w r)) ChunkExecFinished]"
  by (auto simp: retireUnit_def enqueueExecStateChanged_def
      split: list.splits prod.splits dest: NotebookDocQueue_delete_world)

lemma process_noop:
  "m_queue this = [] \<or> \<not> nextcontextNULL e \<Longrightarrow> process e this w = (Success, this, w)"
  by (auto simp: process_def)

lemma update_loop_no_match:
  "\<forall>dq\<in>set qs. dq_docId dq \<noteq> unit_docId pUnit \<Longrightarrow>
   update_loop e pUnit qop beforeId qs w = (qs, w)"
  by (induction qs) auto

lemma update_loop_frame:
  "update_loop e pUnit qop beforeId qs w = (qs', w') \<Longrightarrow>
   clientEvents w' = clientEvents w \<and> length qs' = length qs"
  by (induction qs arbitrary: qs' w')
     (auto split: if_splits prod.splits dest: NotebookDocQueue_update_events)

lemma update_loop_delete_world:
  "update_loop e pUnit QueueDelete beforeId qs w = (qs', w') \<Longrightarrow> w' = w"
  by (induction qs arbitrary: qs' w')
     (auto split: if_splits prod.splits dest: NotebookDocQueue_delete_world)

subsection \<open>Completion before the finished notification\<close>

text \<open>
  Claim C3. A call of \<^verbatim>\<open>process()\<close> emits a chunk-finished notification only for the
  unit in \<^verbatim>\<open>execUnit_\<close>, and only when that unit is complete at the call: all its
  ranges have been submitted (none is pending) and the console has signalled
  evaluation-finished. In particular, a unit whose ranges are exhausted but for which
  the console has not signalled gets no notification.
\<close>

theorem process_finished_only_when_complete:
  assumes "process e this w = (err, this', w')"
    and "ChunkExecStateChanged d c ChunkExecFinished \<in> set (emitted w w')"
  shows "\<exists>r. m_execUnit this = Some r \<and> unit_pending (heap w r) = [] \<and>
           evaluationFinished e \<and>
           d = unit_docId (heap w r) \<and> c = unit_chunkId (heap w r)"
proof (cases "m_queue this = [] \<or> \<not> nextcontextNULL e")
  case True
  then have "process e this w = (Success, this, w)"
    by (rule process_noop)
  with assms show ?thesis by (simp add: emitted_def)
next
  case False
  note active = this
  show ?thesis
  proof (cases "m_execUnit this")
    case None
    with active assms(1) have "executeNextUnit e this w = (err, this', w')"
      by (simp add: process_def)
    from executeNextUnit_events [OF this] assms(2) show ?thesis
      by (auto simp: emitted_def)
  next
    case (Some r)
    show ?thesis
    proof (cases "NotebookQueueUnit_complete e (heap w r)")
      case False
      with active Some assms(1) have "executeCurrentUnit this w = (err, this', w')"
        by (simp add: process_def)
      from executeCurrentUnit_events [OF this] assms(2) show ?thesis
        by (auto simp: emitted_def)
    next
      case True
      obtain this1 w1 where ret: "retireUnit e r this w = (this1, w1)"
        by (cases "retireUnit e r this w")
      with active Some True assms(1) have nxt: "executeNextUnit e this1 w1 = (err, this', w')"
        by (simp add: process_def)
      from executeNextUnit_events [OF nxt] obtain new where
        new: "clientEvents w' = clientEvents w1 @ new"
          "\<forall>d c. ChunkExecStateChanged d c ChunkExecFinished \<notin> set new"
        by blast
      from retireUnit_events [OF ret] new assms(2)
      have "d = unit_docId (heap w r) \<and> c = unit_chunkId (heap w r)"
        by (auto simp: emitted_def)
      with True Some show ?thesis
        by (simp add: NotebookQueueUnit_complete_def)
    qed
  qed
qed

theorem process_finished_only_when_complete_witness:
  "\<exists>r. m_execUnit startedQueue = Some r \<and> unit_pending (heap startedWorld r) = [] \<and>
        evaluationFinished (sampleEnv True True) \<and>
        ''A'' = unit_docId (heap startedWorld r) \<and> ''a2'' = unit_chunkId (heap startedWorld r)"
proof -
  obtain err this' w' where
    p: "process (sampleEnv True True) startedQueue startedWorld = (err, this', w')"
    by (cases "process (sampleEnv True True) startedQueue startedWorld")
  then have "ChunkExecStateChanged ''A'' ''a2'' ChunkExecFinished \<in> set (emitted startedWorld w')"
    by (auto simp: startedQueue_def startedWorld_def emitted_def sample_defs queue_defs)
  from process_finished_only_when_complete [OF p this] show ?thesis .
qed

subsection \<open>Option-parse errors\<close>

text \<open>
  Claim C6. When the options of the first unit of the first document queue fail to
  parse, \<^verbatim>\<open>executeNextUnit\<close> returns that error and changes nothing: the unit stays in
  its document queue, no execution context is created and no event is emitted. A call of
  \<^verbatim>\<open>process()\<close> that reaches the selection (no unit executing, R idle) returns the same
  error with the state unchanged, so the same call fails in the same way until the unit
  is changed from outside.
\<close>

theorem executeNextUnit_parse_error:
  assumes "m_queue this = docQueue # rest"
    and "dq_queue docQueue = unit # units"
    and "parseOptions e (heap w unit) = Inl error"
  shows "executeNextUnit e this w = (Some error, this, w) \<and>
         (m_execUnit this = None \<and> nextcontextNULL e \<longrightarrow>
            process e this w = (Some error, this, w))"
  using assms
  by (simp add: executeNextUnit_def process_def NotebookDocQueue_complete_def firstUnit_def)

theorem executeNextUnit_parse_error_witness:
  "executeNextUnit (sampleEnv True False) (sampleQueue [sampleDocQueue ''B'' [2]]) sampleWorld =
     (Some (Error ''options''), sampleQueue [sampleDocQueue ''B'' [2]], sampleWorld) \<and>
   process (sampleEnv True False) (sampleQueue [sampleDocQueue ''B'' [2]]) sampleWorld =
     (Some (Error ''options''), sampleQueue [sampleDocQueue ''B'' [2]], sampleWorld)"
  using executeNextUnit_parse_error [of "sampleQueue [sampleDocQueue ''B'' [2]]"
      "sampleDocQueue ''B'' [2]" "[]" 2 "[]" "sampleEnv True False" sampleWorld "Error ''options''"]
  by (simp add: sample_defs)

subsection \<open>Selecting the next unit\<close>

lemma popExecRange_ids:
  "popExecRange rng u = (code, rng', u') \<Longrightarrow>
   unit_docId u' = unit_docId u \<and> unit_chunkId u' = unit_chunkId u"
  by (auto simp: popExecRange_def split: list.splits)

text \<open>
  Claim C5, as the code has it. \<^verbatim>\<open>executeNextUnit\<close> looks at the first document queue
  only. When that queue is complete it selects nothing and returns success with the
  state unchanged; it does not go on to a later document queue. When that queue is not
  complete and the options of its first unit parse, it selects that unit, builds the
  execution context from the unit, the options and the rendering parameters of the
  document queue and connects it, emits chunk-started, and in the same call submits the
  first range and emits range-executed.
\<close>

theorem executeNextUnit_first_document:
  assumes "m_queue this = docQueue # rest"
    and "executeNextUnit e this w = (err, this', w')"
  shows "(dq_queue docQueue = [] \<longrightarrow> err = Success \<and> this' = this \<and> w' = w) \<and>
    (\<forall>unit units options.
       dq_queue docQueue = unit # units \<and> parseOptions e (heap w unit) = Inr options \<longrightarrow>
       err = Success \<and> m_execUnit this' = Some unit \<and> m_queue this' = m_queue this \<and>
       m_execContext this' =
         Some \<lparr>ctx_docId = unit_docId (heap w unit), ctx_chunkId = unit_chunkId (heap w unit),
               ctx_nbCtxId = notebookCtxId e, ctx_execScope = ExecScopeChunk,
               ctx_options = options, ctx_pixelWidth = dq_pixelWidth docQueue,
               ctx_charWidth = dq_charWidth docQueue, ctx_connected = True\<rparr> \<and>
       (\<exists>code rng u. popExecRange (ExecRange 0 0) (heap w unit) = (code, rng, u) \<and>
          m_input this' = m_input this @
            [ConsoleInputRpc ''console_input'' code (unit_chunkId (heap w unit)) (m_clientId this)] \<and>
          heap w' = (heap w)(unit := u) \<and>
          emitted w w' =
            [ChunkExecStateChanged (unit_docId (heap w unit)) (unit_chunkId (heap w unit))
               ChunkExecStarted,
             NotebookRangeExecuted (unit_docId (heap w unit)) (unit_chunkId (heap w unit)) rng]))"
  using assms
  by (auto simp: executeNextUnit_def executeCurrentUnit_def enqueueExecStateChanged_def
      NotebookDocQueue_complete_def firstUnit_def connect_def emitted_def Let_def
      popExecRange_def split: prod.splits list.splits)

theorem executeNextUnit_first_document_witness:
  "m_execUnit (fst (snd (executeNextUnit (sampleEnv True False)
      (sampleQueue [sampleDocQueue ''A'' [0, 1]]) sampleWorld))) = Some 0 \<and>
   emitted sampleWorld (snd (snd (executeNextUnit (sampleEnv True False)
      (sampleQueue [sampleDocQueue ''A'' [0, 1]]) sampleWorld))) =
     [ChunkExecStateChanged ''A'' ''a1'' ChunkExecStarted,
      NotebookRangeExecuted ''A'' ''a1'' (ExecRange 0 1)]"
proof -
  let ?q = "sampleQueue [sampleDocQueue ''A'' [0, 1]]"
  let ?r = "executeNextUnit (sampleEnv True False) ?q sampleWorld"
  have q: "m_queue ?q = sampleDocQueue ''A'' [0, 1] # []"
    by (simp add: sample_defs)
  have r: "?r = (fst ?r, fst (snd ?r), snd (snd ?r))"
    by simp
  have sel: "dq_queue (sampleDocQueue ''A'' [0, 1]) = 0 # [1] \<and>
      parseOptions (sampleEnv True False) (heap sampleWorld 0) = Inr (JObj [])"
    by (simp add: sample_defs)
  from executeNextUnit_first_document [OF q r] sel show ?thesis
    by (auto simp: sample_defs popExecRange_def)
qed

text \<open>The claim as stated fails: with a complete document queue in front of one that has
  a unit, nothing is selected. Such a state arises from two new-document requests, the
  first for a document without chunks (\<open>stalledRun\<close>).\<close>

theorem executeNextUnit_first_document_counterexample:
  "NotebookDocQueue_complete (sampleDocQueue ''E'' []) \<and>
   \<not> NotebookDocQueue_complete (sampleDocQueue ''A'' [1]) \<and>
   firstUnit (sampleDocQueue ''A'' [1]) = Some 1 \<and>
   m_queue stalledQueue = [sampleDocQueue ''E'' [], sampleDocQueue ''A'' [1]] \<and>
   m_execUnit stalledQueue = None \<and>
   executeNextUnit (sampleEnv True False) stalledQueue sampleWorld =
     (Success, stalledQueue, sampleWorld)"
  by (simp add: stalledQueue_def sample_defs queue_defs)

lemma stalledRun_result:
  "clientEvents (world (run stalledRun (initialSession noUnits 0))) = [] \<and>
   map_option (map dq_queue \<circ> m_queue) (s_queue (run stalledRun (initialSession noUnits 0))) =
     Some [[], [0]] \<and>
   \<not> slotOccupied (run stalledRun (initialSession noUnits 0))"
  by (simp add: stalledRun_def slotOccupied_def sample_defs queue_defs entry_defs)

subsection \<open>Deleting the executing unit\<close>

lemma update_loop_nonempty:
  "update_loop e pUnit qop beforeId qs w = (qs', w') \<Longrightarrow> qs \<noteq> [] \<Longrightarrow> qs' \<noteq> []"
  by (auto dest: update_loop_frame)

text \<open>
  Claim C1, as the code has it. A delete request for the executing unit (the first unit
  of the first document queue) removes it from that document queue and changes nothing
  else: \<^verbatim>\<open>update\<close> returns success and leaves \<^verbatim>\<open>execUnit_\<close>, the execution
  context, the submitted input and the world as they were. At the next
  \<^verbatim>\<open>process()\<close> with R idle the unit is still the executing one: while it is not
  complete its next range is submitted and range-executed is emitted; once it is
  complete, chunk-finished is emitted for it, the context is disconnected, the slot is
  cleared and the selection of the next unit follows.
\<close>

theorem update_delete_keeps_executing_unit:
  assumes "NotebookQueue_update e pUnit QueueDelete beforeId this w = (err, this', w')"
    and "m_execUnit this = Some r"
    and "m_queue this = docQueue # rest"
    and "dq_docId docQueue = unit_docId pUnit"
    and "unit_ident pUnit = unit_ident (heap w r)"
    and "nextcontextNULL e2"
  shows "err = Success \<and> m_execUnit this' = Some r \<and> m_execContext this' = m_execContext this \<and>
     m_input this' = m_input this \<and> w' = w \<and>
     (\<exists>docQueue'. m_queue this' = docQueue' # rest \<and> r \<notin> set (dq_queue docQueue')) \<and>
     (\<not> NotebookQueueUnit_complete e2 (heap w r) \<longrightarrow>
        (\<exists>code rng u. popExecRange (ExecRange 0 0) (heap w r) = (code, rng, u) \<and>
           process e2 this' w' =
             (Success,
              this'\<lparr>m_input := m_input this @
                 [ConsoleInputRpc ''console_input'' code (unit_chunkId (heap w r)) (m_clientId this)]\<rparr>,
              w\<lparr>heap := (heap w)(r := u),
                clientEvents := clientEvents w @
                  [NotebookRangeExecuted (unit_docId (heap w r)) (unit_chunkId (heap w r)) rng]\<rparr>))) \<and>
     (NotebookQueueUnit_complete e2 (heap w r) \<longrightarrow>
        (\<exists>this1 w1. process e2 this' w' = executeNextUnit e2 this1 w1 \<and>
           m_execUnit this1 = None \<and>
           m_execContext this1 = map_option disconnect (m_execContext this) \<and>
           clientEvents w1 = clientEvents w @
             [ChunkExecStateChanged (unit_docId (heap w r)) (unit_chunkId (heap w r))
                ChunkExecFinished]))"
proof -
  obtain qs' where loop: "update_loop e pUnit QueueDelete beforeId (m_queue this) w = (qs', w')"
    and this': "this' = this\<lparr>m_queue := qs'\<rparr>" and err: "err = Success"
    using assms(1) by (auto simp: NotebookQueue_update_def split: prod.splits)
  from loop have w': "w' = w"
    by (rule update_loop_delete_world)
  from assms(3) have "m_queue this \<noteq> []"
    by simp
  with loop have ne: "qs' \<noteq> []"
    by (rule update_loop_nonempty)
  have frame: "err = Success \<and> m_execUnit this' = Some r \<and>
      m_execContext this' = m_execContext this \<and> m_input this' = m_input this \<and> w' = w"
    using this' err w' assms(2) by simp
  have removed: "\<exists>docQueue'. m_queue this' = docQueue' # rest \<and> r \<notin> set (dq_queue docQueue')"
    using loop this' assms(3,4,5) by (auto simp: NotebookDocQueue_update_def)
  have running: "\<not> NotebookQueueUnit_complete e2 (heap w r) \<longrightarrow>
        (\<exists>code rng u. popExecRange (ExecRange 0 0) (heap w r) = (code, rng, u) \<and>
           process e2 this' w' =
             (Success,
              this'\<lparr>m_input := m_input this @
                 [ConsoleInputRpc ''console_input'' code (unit_chunkId (heap w r)) (m_clientId this)]\<rparr>,
              w\<lparr>heap := (heap w)(r := u),
                clientEvents := clientEvents w @
                  [NotebookRangeExecuted (unit_docId (heap w r)) (unit_chunkId (heap w r)) rng]\<rparr>))"
    using this' w' ne assms(2,6)
    by (auto simp: process_def executeCurrentUnit_def popExecRange_def split: list.splits)
  have finished: "NotebookQueueUnit_complete e2 (heap w r) \<longrightarrow>
        (\<exists>this1 w1. process e2 this' w' = executeNextUnit e2 this1 w1 \<and>
           m_execUnit this1 = None \<and>
           m_execContext this1 = map_option disconnect (m_execContext this) \<and>
           clientEvents w1 = clientEvents w @
             [ChunkExecStateChanged (unit_docId (heap w r)) (unit_chunkId (heap w r))
                ChunkExecFinished])"
  proof
    assume c: "NotebookQueueUnit_complete e2 (heap w r)"
    obtain this1 w1 where ret: "retireUnit e2 r this' w = (this1, w1)"
      by (cases "retireUnit e2 r this' w")
    from ret this' have "m_execUnit this1 = None \<and>
        m_execContext this1 = map_option disconnect (m_execContext this)"
      by (auto simp: retireUnit_def split: prod.splits)
    moreover from c ret this' w' ne assms(2,6)
    have "process e2 this' w' = executeNextUnit e2 this1 w1"
      by (simp add: process_def)
    ultimately show "\<exists>this1 w1. process e2 this' w' = executeNextUnit e2 this1 w1 \<and>
           m_execUnit this1 = None \<and>
           m_execContext this1 = map_option disconnect (m_execContext this) \<and>
           clientEvents w1 = clientEvents w @
             [ChunkExecStateChanged (unit_docId (heap w r)) (unit_chunkId (heap w r))
                ChunkExecFinished]"
      using retireUnit_events [OF ret] by blast
  qed
  from frame removed running finished show ?thesis by blast
qed

theorem update_delete_keeps_executing_unit_witness:
  "fst (NotebookQueue_update (sampleEnv True False) (sampleUnit ''A'' ''a2'') QueueDelete []
      startedQueue startedWorld) = Success \<and>
   m_execUnit (fst (snd (NotebookQueue_update (sampleEnv True False) (sampleUnit ''A'' ''a2'')
      QueueDelete [] startedQueue startedWorld))) = Some 1 \<and>
   map dq_queue (m_queue (fst (snd (NotebookQueue_update (sampleEnv True False)
      (sampleUnit ''A'' ''a2'') QueueDelete [] startedQueue startedWorld)))) = [[]]"
proof -
  let ?u = "NotebookQueue_update (sampleEnv True False) (sampleUnit ''A'' ''a2'') QueueDelete []
      startedQueue startedWorld"
  have u: "?u = (fst ?u, fst (snd ?u), snd (snd ?u))"
    by simp
  have slot: "m_execUnit startedQueue = Some 1"
    by (simp add: startedQueue_def sample_defs queue_defs)
  have queue: "m_queue startedQueue = sampleDocQueue ''A'' [1] # []"
    by (simp add: startedQueue_def sample_defs queue_defs)
  have doc: "dq_docId (sampleDocQueue ''A'' [1]) = unit_docId (sampleUnit ''A'' ''a2'')"
    by (simp add: sample_defs)
  have ident: "unit_ident (sampleUnit ''A'' ''a2'') = unit_ident (heap startedWorld 1)"
    by (simp add: startedWorld_def sample_defs queue_defs)
  have idle: "nextcontextNULL (sampleEnv True True)"
    by (simp add: sampleEnv_def)
  have "map dq_queue (m_queue (fst (snd ?u))) = [[]]"
    by (simp add: startedQueue_def startedWorld_def sample_defs queue_defs)
  with update_delete_keeps_executing_unit [OF u slot queue doc ident idle] show ?thesis
    by simp
qed

text \<open>The claim as stated fails: in \<open>deletionRun\<close> the unit is deleted after its first
  range (the document queue is empty after the request), and the prompts that follow
  submit its second range and then emit chunk-finished for it.\<close>

theorem update_delete_keeps_executing_unit_counterexample:
  "map_option (map dq_queue \<circ> m_queue) (s_queue (run (take 2 deletionRun) (initialSession noUnits 0))) =
     Some [[]] \<and>
   clientEvents (world (run (take 2 deletionRun) (initialSession noUnits 0))) =
     [ChunkExecStateChanged ''A'' ''a1'' ChunkExecStarted,
      NotebookRangeExecuted ''A'' ''a1'' (ExecRange 0 1)] \<and>
   clientEvents (world (run deletionRun (initialSession noUnits 0))) =
     [ChunkExecStateChanged ''A'' ''a1'' ChunkExecStarted,
      NotebookRangeExecuted ''A'' ''a1'' (ExecRange 0 1),
      NotebookRangeExecuted ''A'' ''a1'' (ExecRange 1 1),
      ChunkExecStateChanged ''A'' ''a1'' ChunkExecFinished]"
  by (simp add: deletionRun_def sample_defs queue_defs entry_defs)

subsection \<open>Requests that find nothing to change\<close>

text \<open>
  Claim C7. When no document queue of the global queue has the document id of the
  request's unit, \<^verbatim>\<open>update\<close> returns success and leaves the queue object and the world
  (store and event queue) as they were, whatever the operation and the anchor.
\<close>

theorem update_unknown_document_noop:
  assumes "\<forall>dq\<in>set (m_queue this). dq_docId dq \<noteq> unit_docId pUnit"
  shows "NotebookQueue_update e pUnit qop beforeId this w = (Success, this, w)"
  using assms by (simp add: NotebookQueue_update_def update_loop_no_match)

theorem update_unknown_document_noop_witness:
  "NotebookQueue_update (sampleEnv True False) (sampleUnit ''Z'' ''z1'') QueueDelete []
     (sampleQueue [sampleDocQueue ''A'' [0, 1]]) sampleWorld =
   (Success, sampleQueue [sampleDocQueue ''A'' [0, 1]], sampleWorld)"
  using update_unknown_document_noop [of "sampleQueue [sampleDocQueue ''A'' [0, 1]]"
      "sampleUnit ''Z'' ''z1''" "sampleEnv True False" QueueDelete "[]" sampleWorld]
  by (simp add: sample_defs)

text \<open>
  Claim C8. A call of \<^verbatim>\<open>process()\<close> on an empty global queue, or while R is executing
  code, returns success and changes neither the queue object nor the world, so it emits
  nothing; any number of such calls in a row leaves the state where it was.
\<close>

theorem process_noop_repeated:
  assumes "\<forall>e\<in>set es. m_queue this = [] \<or> \<not> nextcontextNULL e"
  shows "process_all es this w = (replicate (length es) Success, this, w)"
  using assms by (induction es) (auto simp: process_noop)

theorem process_noop_repeated_witness:
  "process_all [sampleEnv False False, sampleEnv False True]
     (sampleQueue [sampleDocQueue ''A'' [0, 1]]) sampleWorld =
   ([Success, Success], sampleQueue [sampleDocQueue ''A'' [0, 1]], sampleWorld)"
  using process_noop_repeated [of "[sampleEnv False False, sampleEnv False True]"
      "sampleQueue [sampleDocQueue ''A'' [0, 1]]" sampleWorld]
  by (simp add: sampleEnv_def)

text \<open>
  Claim C9. When no queue exists (\<^verbatim>\<open>s_queue\<close> is null) and the parameters and the unit
  of the request decode, \<^verbatim>\<open>updateExecQueue\<close> returns success and the session is
  unchanged.
\<close>

theorem updateExecQueue_without_queue:
  assumes "s_queue g = None"
    and "readParams3 e (req_params request) = Inr (unitJson, qop, beforeId)"
    and "unitFromJson e unitJson = Inr pUnit"
  shows "updateExecQueue e request g = (Success, g)"
  using assms by (simp add: updateExecQueue_def)

theorem updateExecQueue_without_queue_witness:
  "updateExecQueue (sampleEnv True False) (updateRequest ''A'' ''a1'' 2 [])
     (initialSession noUnits 0) = (Success, initialSession noUnits 0)"
  using updateExecQueue_without_queue [of "initialSession noUnits 0" "sampleEnv True False"
      "updateRequest ''A'' ''a1'' 2 []"
      "JObj [(''doc_id'', JStr ''A''), (''chunk_id'', JStr ''a1'')]"
      2 "[]" "sampleUnit ''A'' ''a1''"]
  by (simp add: sample_defs)

text \<open>
  Claim C10. When the document object of a new-document request does not convert into a
  document queue, \<^verbatim>\<open>executeNotebookChunks\<close> returns that error and the session is
  unchanged: no queue is created, nothing is appended to an existing one, the store
  and the event queue are as before, and \<^verbatim>\<open>process()\<close> is not called.
\<close>

theorem executeNotebookChunks_conversion_error:
  assumes "docQueueFromJson e (readDocObj e request) = Inl error"
  shows "executeNotebookChunks e request g = (Some error, g)"
  using assms by (simp add: executeNotebookChunks_def NotebookDocQueue_fromJson_def)

theorem executeNotebookChunks_conversion_error_witness:
  "executeNotebookChunks (sampleEnv True False) \<lparr>req_params = [], req_clientId = ''client''\<rparr>
     (initialSession noUnits 0) = (Some (Error ''document''), initialSession noUnits 0)"
  using executeNotebookChunks_conversion_error [of "sampleEnv True False"
      "\<lparr>req_params = [], req_clientId = ''client''\<rparr>" "Error ''document''"
      "initialSession noUnits 0"]
  by (simp add: sample_defs readDocObj_def)

subsection \<open>One unit at a time\<close>

lemma executing_after_append:
  "executing_after (xs @ ys) b =
     (case executing_after xs b of None \<Rightarrow> None | Some b' \<Rightarrow> executing_after ys b')"
  by (induction xs b rule: executing_after.induct) auto

lemma executeCurrentUnit_slotAgrees:
  "executeCurrentUnit this w = (err, this', w') \<Longrightarrow> slotAgrees this w \<Longrightarrow> slotAgrees this' w'"
  by (auto simp: executeCurrentUnit_def slotAgrees_def executing_after_append
      split: option.splits prod.splits)

lemma executeNextUnit_slotAgrees:
  "executeNextUnit e this w = (err, this', w') \<Longrightarrow> m_execUnit this = None \<Longrightarrow>
   slotAgrees this w \<Longrightarrow> slotAgrees this' w'"
  by (auto simp: executeNextUnit_def executeCurrentUnit_def enqueueExecStateChanged_def
      slotAgrees_def executing_after_append Let_def
      split: list.splits if_splits option.splits sum.splits prod.splits)

lemma retireUnit_slotAgrees:
  "retireUnit e r this w = (this', w') \<Longrightarrow> m_execUnit this = Some r \<Longrightarrow>
   slotAgrees this w \<Longrightarrow> slotAgrees this' w' \<and> m_execUnit this' = None"
  by (frule retireUnit_events)
     (auto simp: retireUnit_def slotAgrees_def executing_after_append split: prod.splits)

lemma process_slotAgrees:
  assumes "process e this w = (err, this', w')" and "slotAgrees this w"
  shows "slotAgrees this' w'"
proof (cases "m_queue this = [] \<or> \<not> nextcontextNULL e")
  case True
  then have "process e this w = (Success, this, w)"
    by (rule process_noop)
  with assms show ?thesis by simp
next
  case False
  note active = this
  show ?thesis
  proof (cases "m_execUnit this")
    case None
    with active assms(1) have "executeNextUnit e this w = (err, this', w')"
      by (simp add: process_def)
    from executeNextUnit_slotAgrees [OF this None assms(2)] show ?thesis .
  next
    case (Some r)
    show ?thesis
    proof (cases "NotebookQueueUnit_complete e (heap w r)")
      case False
      with active Some assms(1) have "executeCurrentUnit this w = (err, this', w')"
        by (simp add: process_def)
      from executeCurrentUnit_slotAgrees [OF this assms(2)] show ?thesis .
    next
      case True
      obtain this1 w1 where ret: "retireUnit e r this w = (this1, w1)"
        by (cases "retireUnit e r this w")
      with active Some True assms(1) have nxt: "executeNextUnit e this1 w1 = (err, this', w')"
        by (simp add: process_def)
      from retireUnit_slotAgrees [OF ret Some assms(2)]
      have "slotAgrees this1 w1" and "m_execUnit this1 = None"
        by simp_all
      with executeNextUnit_slotAgrees [OF nxt] show ?thesis
        by simp
    qed
  qed
qed

lemma NotebookQueue_update_slotAgrees:
  assumes "NotebookQueue_update e pUnit qop beforeId this w = (err, this', w')"
    and "slotAgrees this w"
  shows "slotAgrees this' w'"
proof -
  obtain qs' where loop: "update_loop e pUnit qop beforeId (m_queue this) w = (qs', w')"
    and this': "this' = this\<lparr>m_queue := qs'\<rparr>"
    using assms(1) by (auto simp: NotebookQueue_update_def split: prod.splits)
  from update_loop_frame [OF loop] this' assms(2) show ?thesis
    by (auto simp: slotAgrees_def)
qed

lemma allocUnits_events:
  "allocUnits us w = (rs, w') \<Longrightarrow> clientEvents w' = clientEvents w"
  by (induction us arbitrary: w rs w') (auto split: prod.splits)

lemma NotebookDocQueue_fromJson_events:
  "NotebookDocQueue_fromJson e docObj w = Inr (pQueue, w') \<Longrightarrow> clientEvents w' = clientEvents w"
  by (auto simp: NotebookDocQueue_fromJson_def split: sum.splits prod.splits
      dest: allocUnits_events)

lemma executeNotebookChunks_sessionAgrees:
  assumes "sessionAgrees g"
  shows "sessionAgrees (snd (executeNotebookChunks e request g))"
proof (cases "NotebookDocQueue_fromJson e (readDocObj e request) (world g)")
  case (Inl error)
  with assms show ?thesis
    by (simp add: executeNotebookChunks_def)
next
  case (Inr res)
  obtain pQueue w1 where res: "res = (pQueue, w1)"
    by (cases res)
  let ?q = "case s_queue g of None \<Rightarrow> NotebookQueue_new (req_clientId request) | Some q \<Rightarrow> q"
  from Inr res have ev: "clientEvents w1 = clientEvents (world g)"
    by (auto dest: NotebookDocQueue_fromJson_events)
  with assms have "slotAgrees (NotebookQueue_add pQueue ?q) w1"
    by (auto simp: sessionAgrees_def slotAgrees_def NotebookQueue_add_def NotebookQueue_new_def
        split: option.splits)
  moreover obtain err q' w' where
    p: "process e (NotebookQueue_add pQueue ?q) w1 = (err, q', w')"
    by (cases "process e (NotebookQueue_add pQueue ?q) w1")
  ultimately have "slotAgrees q' w'"
    by (auto dest: process_slotAgrees)
  with Inr res p show ?thesis
    by (simp add: executeNotebookChunks_def sessionAgrees_def)
qed

lemma updateExecQueue_sessionAgrees:
  assumes "sessionAgrees g"
  shows "sessionAgrees (snd (updateExecQueue e request g))"
  using assms
  by (auto simp: updateExecQueue_def sessionAgrees_def
      split: sum.splits prod.splits option.splits dest: NotebookQueue_update_slotAgrees)

lemma onConsolePrompt_sessionAgrees:
  assumes "sessionAgrees g"
  shows "sessionAgrees (onConsolePrompt e g)"
proof (cases "s_queue g")
  case None
  with assms show ?thesis
    by (simp add: onConsolePrompt_def)
next
  case (Some q)
  obtain err q' w' where p: "process e q (world g) = (err, q', w')"
    by (cases "process e q (world g)")
  with assms Some have "slotAgrees q' w'"
    by (auto simp: sessionAgrees_def dest: process_slotAgrees)
  with Some p show ?thesis
    by (auto simp: onConsolePrompt_def sessionAgrees_def slotAgrees_def NotebookQueue_complete_def
        Let_def)
qed

lemma step_sessionAgrees:
  "sessionAgrees g \<Longrightarrow> sessionAgrees (step g s)"
  by (cases s; cases "snd s")
     (auto intro: executeNotebookChunks_sessionAgrees updateExecQueue_sessionAgrees
        onConsolePrompt_sessionAgrees)

lemma run_sessionAgrees:
  "sessionAgrees g \<Longrightarrow> sessionAgrees (run steps g)"
  by (induction steps rule: rev_induct) (simp_all add: run_def step_sessionAgrees)

text \<open>
  Claim C4. Take any run of new-document requests, update requests and console prompts,
  in any order and with any surroundings at each step, from the state without a queue.
  The event log of the run never starts a chunk while another one has started and not
  finished, and a chunk is started and not finished at the end of the run exactly when
  \<^verbatim>\<open>execUnit_\<close> holds a unit. So at most one unit is executing at any time.
\<close>

theorem at_most_one_unit_executing:
  "executing_after (clientEvents (world (run steps (initialSession h n)))) False =
     Some (slotOccupied (run steps (initialSession h n)))"
proof -
  have "sessionAgrees (initialSession h n)"
    by (simp add: sessionAgrees_def initialSession_def)
  then have "sessionAgrees (run steps (initialSession h n))"
    by (rule run_sessionAgrees)
  then show ?thesis
    by (auto simp: sessionAgrees_def slotAgrees_def slotOccupied_def split: option.splits)
qed

theorem at_most_one_unit_executing_witness:
  "executing_after (clientEvents (world (run (take 3 deletionRun) (initialSession noUnits 0)))) False =
     Some True"
proof -
  have "slotOccupied (run (take 3 deletionRun) (initialSession noUnits 0))"
    by (simp add: deletionRun_def slotOccupied_def sample_defs queue_defs entry_defs)
  with at_most_one_unit_executing [of "take 3 deletionRun" noUnits 0] show ?thesis
    by simp
qed

subsection \<open>Order of execution\<close>























lemma orderRun_started:
  "started (clientEvents (world (run orderRun (initialSession noUnits 0)))) =
     [(''A'', ''a1''), (''A'', ''a2''), (''B'', ''b1'')]"
  by (simp add: orderRun_def sample_defs queue_defs entry_defs)

end
